theory Spec2Isabelle
  imports Complex_Main "HOL-Library.Monad_Syntax"
begin

section \<open>The training and validation driver of train\_val.py\<close>

text \<open>
  The driver is glue code around a deep-learning framework. The embedding keeps the
  driver's own control flow, arithmetic and mutations as the source has them, and takes
  the framework (tensors, the network, the loss, the optimizer, the scheduler, the data
  loader) as a record of functions, a parameter of every definition.

  Python floats are modelled as reals where the driver only adds, divides and compares
  them (the loss values); the PSNR expression, whose float result is infinite or not a
  number at a zero or negative error, returns a \<open>pyfloat\<close>. Calls to the framework and
  to the logger are recorded, in order, in a trace kept in the state.
\<close>

subsection \<open>Errors and floats\<close>

datatype error = UnboundLocalError | ZeroDivisionError | SystemExit

datatype pyfloat = Finite real | PosInf | NaN

text \<open>Float addition, as far as \<open>total_psnr += psnr\<close> needs it (no negative infinity
  arises: a PSNR is finite, plus infinity or not a number).\<close>

fun fadd :: "pyfloat \<Rightarrow> pyfloat \<Rightarrow> pyfloat" where
  "fadd (Finite a) (Finite b) = Finite (a + b)"
| "fadd NaN _ = NaN"
| "fadd _ NaN = NaN"
| "fadd PosInf _ = PosInf"
| "fadd _ PosInf = PosInf"

text \<open>A float divided by a positive count; the caller raises at a zero count.\<close>

fun fdiv :: "pyfloat \<Rightarrow> nat \<Rightarrow> pyfloat" where
  "fdiv (Finite a) n = Finite (a / real n)"
| "fdiv PosInf n = PosInf"
| "fdiv NaN n = NaN"

text \<open>\<open>a < b\<close> on floats: false as soon as one side is not a number.\<close>

fun flt :: "pyfloat \<Rightarrow> pyfloat \<Rightarrow> bool" where
  "flt (Finite a) (Finite b) = (a < b)"
| "flt (Finite a) PosInf = True"
| "flt _ _ = False"

text \<open>\<open>10 * torch.log10(1 / loss).item()\<close>: the tensor division gives infinity at zero,
  whose logarithm is infinity; the logarithm of a negative number is not a number.\<close>

definition psnr_of :: "real \<Rightarrow> pyfloat" where
  "psnr_of mse =
     (if 0 < mse then Finite (10 * log 10 (1 / mse))
      else if mse = 0 then PosInf else NaN)"

subsection \<open>The configuration\<close>

record args =
  mode :: string
  pretrained :: string
  train_path :: string
  val_path :: string
  save_dir :: string
  result_fig :: bool
  transform :: bool
  patch_n :: int
  patch_size :: int
  batch_size :: int
  num_epochs :: int
  print_iters :: int
  decay_iters :: int
  save_interval :: int
  test_interval :: int
  lr :: real
  device :: string
  num_workers :: int
  multi_gpu :: bool

text \<open>The command line is the list of \<open>--flag value\<close> pairs in the order given, each
  flag under its full name without the dashes. argparse
  keeps the last value of a repeated flag, exits on an unknown flag or on a value its
  \<open>type\<close> rejects, converts a given value with \<open>type\<close> (so \<open>type=bool\<close> is Python's
  \<open>bool\<close> of a string: true unless the string is empty) and takes the default for an
  absent flag. The conversions \<open>int\<close> and \<open>float\<close> of a string are parameters.\<close>

definition known_flags :: "string list" where
  "known_flags =
     [''mode'', ''pretrained'', ''train_path'', ''val_path'', ''save_dir'', ''result_fig'',
      ''transform'', ''patch_n'', ''patch_size'', ''batch_size'', ''num_epochs'',
      ''print_iters'', ''decay_iters'', ''save_interval'', ''test_interval'', ''lr'',
      ''device'', ''num_workers'', ''multi_gpu'']"

definition given :: "(string \<times> string) list \<Rightarrow> string \<Rightarrow> string option" where
  "given argv flag = map_of (rev argv) flag"

definition arg_str :: "(string \<times> string) list \<Rightarrow> string \<Rightarrow> string \<Rightarrow> string" where
  "arg_str argv flag dflt = (case given argv flag of None \<Rightarrow> dflt | Some s \<Rightarrow> s)"

definition arg_bool :: "(string \<times> string) list \<Rightarrow> string \<Rightarrow> bool \<Rightarrow> bool" where
  "arg_bool argv flag dflt = (case given argv flag of None \<Rightarrow> dflt | Some s \<Rightarrow> s \<noteq> [])"

definition arg_conv ::
  "(string \<Rightarrow> 'a option) \<Rightarrow> (string \<times> string) list \<Rightarrow> string \<Rightarrow> 'a \<Rightarrow> 'a option" where
  "arg_conv conv argv flag dflt =
     (case given argv flag of None \<Rightarrow> Some dflt | Some s \<Rightarrow> conv s)"

definition parse_args ::
  "(string \<Rightarrow> int option) \<Rightarrow> (string \<Rightarrow> real option) \<Rightarrow> (string \<times> string) list \<Rightarrow>
   args option" where
  "parse_args py_int py_float argv =
     do {
       a_patch_n \<leftarrow> arg_conv py_int argv ''patch_n'' 10;
       a_patch_size \<leftarrow> arg_conv py_int argv ''patch_size'' 50;
       a_batch_size \<leftarrow> arg_conv py_int argv ''batch_size'' 16;
       a_num_epochs \<leftarrow> arg_conv py_int argv ''num_epochs'' 50;
       a_print_iters \<leftarrow> arg_conv py_int argv ''print_iters'' 20;
       a_decay_iters \<leftarrow> arg_conv py_int argv ''decay_iters'' 3000;
       a_save_interval \<leftarrow> arg_conv py_int argv ''save_interval'' 1;
       a_test_interval \<leftarrow> arg_conv py_int argv ''test_interval'' 1;
       a_lr \<leftarrow> arg_conv py_float argv ''lr'' (1 / 1000);
       a_num_workers \<leftarrow> arg_conv py_int argv ''num_workers'' 2;
       Some \<lparr>mode = arg_str argv ''mode'' ''train'',
             pretrained = arg_str argv ''pretrained'' '''',
             train_path = arg_str argv ''train_path'' ''data/image_path/train.txt'',
             val_path = arg_str argv ''val_path'' ''data/image_path/val.txt'',
             save_dir = arg_str argv ''save_dir'' ''./ckpt/1'',
             result_fig = arg_bool argv ''result_fig'' True,
             transform = arg_bool argv ''transform'' False,
             patch_n = a_patch_n,
             patch_size = a_patch_size,
             batch_size = a_batch_size,
             num_epochs = a_num_epochs,
             print_iters = a_print_iters,
             decay_iters = a_decay_iters,
             save_interval = a_save_interval,
             test_interval = a_test_interval,
             lr = a_lr,
             device = arg_str argv ''device'' ''cpu'',
             num_workers = a_num_workers,
             multi_gpu = arg_bool argv ''multi_gpu'' False\<rparr>
     }"

definition get_args ::
  "(string \<Rightarrow> int option) \<Rightarrow> (string \<Rightarrow> real option) \<Rightarrow> (string \<times> string) list \<Rightarrow>
   error + args" where
  "get_args py_int py_float argv =
     (if \<exists>flag \<in> set (map fst argv). flag \<notin> set known_flags then Inl SystemExit
      else case parse_args py_int py_float argv of
             None \<Rightarrow> Inl SystemExit
           | Some a \<Rightarrow> Inr a)"

subsection \<open>The framework, the trace and the state\<close>

datatype log_msg =
    TrainLog int nat nat real real real
  | ValLog int nat nat real real pyfloat pyfloat pyfloat pyfloat
  | MeanPsnr pyfloat
  | MeanOrgPsnr pyfloat
  | MeanLoss real
  | UsingDevice string
  | ArgsLog args
  | EpochLog int int
  | Done

datatype 'p event =
    Makedirs string
  | SetupLogger string string nat
  | ModelTo string
  | ModelTrain
  | ModelEval
  | NoGradEnter
  | NoGradExit
  | View "int list"
  | To string
  | Forward bool bool
  | LossFunc real
  | ZeroGrad
  | Backward
  | OptStep
  | SchedStep real
  | Save string 'p
  | LogInfo log_msg
  | Print string

text \<open>The arguments of a \<open>DataLoader(...)\<close> call.\<close>

record 'd dataloader =
  dl_dataset :: 'd
  dl_batch_size :: nat
  dl_shuffle :: bool
  dl_num_workers :: int

text \<open>The arguments of the \<open>ReduceLROnPlateau(...)\<close> call.\<close>

record plateau_config =
  pc_mode :: string
  pc_factor :: real
  pc_verbose :: bool
  pc_patience :: nat
  pc_min_lr :: real

text \<open>The framework and the collaborators outside the file: \<open>'t\<close> tensors, \<open>'p\<close> the
  learnable parameters, \<open>'g\<close> gradients, \<open>'o\<close> the optimizer's state, \<open>'s\<close> the
  scheduler's state, \<open>'d\<close> datasets. \<open>batches T dl e\<close> are the batches the loader yields
  when it is iterated in epoch \<open>e\<close> (a shuffling loader yields another order each time);
  \<open>len(dataloader)\<close> is their number. \<open>loss_func\<close> is the loss with \<open>.item()\<close> applied.
  \<open>sched_step\<close> takes the scheduler's state, the metric and the optimizer's learning rate
  and returns the new state and rate.\<close>

record ('t, 'p, 'g, 'o, 's, 'd) torch =
  path_exists :: "string \<Rightarrow> bool"
  CTDataset :: "string \<Rightarrow> int \<Rightarrow> int \<Rightarrow> 'd"
  batches :: "'d dataloader \<Rightarrow> int \<Rightarrow> ('t \<times> 't \<times> string) list"
  BRDNet :: "'p"
  torch_load :: "string \<Rightarrow> 'p"
  Adam :: "'p \<Rightarrow> real \<Rightarrow> 'o"
  ReduceLROnPlateau :: "plateau_config \<Rightarrow> 's"
  view :: "'t \<Rightarrow> int list \<Rightarrow> 't"
  to :: "'t \<Rightarrow> string \<Rightarrow> 't"
  forward :: "'p \<Rightarrow> bool \<Rightarrow> 't \<Rightarrow> 't"
  loss_func :: "'t \<Rightarrow> 't \<Rightarrow> real"
  backward :: "'g option \<Rightarrow> 'p \<Rightarrow> bool \<Rightarrow> 't \<Rightarrow> 't \<Rightarrow> 'g"
  opt_step :: "'o \<Rightarrow> real \<Rightarrow> 'p \<Rightarrow> 'g option \<Rightarrow> 'o \<times> 'p"
  sched_step :: "'s \<Rightarrow> real \<Rightarrow> real \<Rightarrow> 's \<times> real"

text \<open>The mutable state a run owns: the model (its parameters, its train/eval mode, the
  gradients stored with them), whether gradients are tracked, the optimizer (its state and
  the learning rate of its parameter group) and the trace.\<close>

record ('p, 'g, 'o) world =
  params :: 'p
  training :: bool
  grad_enabled :: bool
  grad :: "'g option"
  opt_state :: 'o
  opt_lr :: real
  trace :: "'p event list"

definition emit :: "'p event list \<Rightarrow> ('p, 'g, 'o) world \<Rightarrow> ('p, 'g, 'o) world" where
  "emit evs w = w\<lparr>trace := trace w @ evs\<rparr>"

definition patch_shape :: "args \<Rightarrow> int list" where
  "patch_shape a = [- 1, 1, patch_size a, patch_size a]"

subsection \<open>train\<close>

text \<open>One pass of the loop body of \<open>train\<close>, lines 51 to 71. \<open>n\<close> is \<open>len(dataloader)\<close>.\<close>

definition train_batch ::
  "('t, 'p, 'g, 'o, 's, 'd) torch \<Rightarrow> args \<Rightarrow> int \<Rightarrow> nat \<Rightarrow> nat \<Rightarrow> 't \<times> 't \<times> string \<Rightarrow>
   real \<times> ('p, 'g, 'o) world \<Rightarrow> error + real \<times> ('p, 'g, 'o) world" where
  "train_batch T a epoch n batch_i batch acc =
     (case batch of (inp0, gt0, ident) \<Rightarrow>
      case acc of (total_loss, w0) \<Rightarrow>
      let reshape = (patch_size a \<noteq> 0);
          inp1 = (if reshape then view T inp0 (patch_shape a) else inp0);
          gt1 = (if reshape then view T gt0 (patch_shape a) else gt0);
          w1 = (if reshape then emit [View (patch_shape a), View (patch_shape a)] w0 else w0);
          inp_data = to T inp1 (device a);
          gt_data = to T gt1 (device a);
          w2 = emit [To (device a), To (device a)] w1;
          pred = forward T (params w2) (training w2) inp_data;
          w3 = emit [Forward (training w2) (grad_enabled w2)] w2;
          loss = loss_func T pred gt_data;
          w4 = emit [LossFunc loss] w3;
          w5 = emit [ZeroGrad] (w4\<lparr>grad := None\<rparr>);
          w6 = emit [Backward]
                 (w5\<lparr>grad := Some (backward T (grad w5) (params w5) (training w5)
                                     inp_data gt_data)\<rparr>);
          stepped = opt_step T (opt_state w6) (opt_lr w6) (params w6) (grad w6);
          w7 = emit [OptStep] (w6\<lparr>opt_state := fst stepped, params := snd stepped\<rparr>);
          total_loss' = total_loss + loss
      in if print_iters a = 0 then Inl ZeroDivisionError
         else if int batch_i mod print_iters a = 0
         then Inr (total_loss',
                   emit [LogInfo (TrainLog epoch (batch_i + 1) n loss
                                   (total_loss' / real (batch_i + 1)) (opt_lr w7))] w7)
         else Inr (total_loss', w7))"

text \<open>The \<open>for batch_i, ... in enumerate(dataloader)\<close> loop: the state of the loop is the
  accumulated loss, the last value bound to \<open>batch_i\<close> (none before the first pass) and
  the world.\<close>

fun train_loop ::
  "('t, 'p, 'g, 'o, 's, 'd) torch \<Rightarrow> args \<Rightarrow> int \<Rightarrow> nat \<Rightarrow> nat \<Rightarrow> ('t \<times> 't \<times> string) list \<Rightarrow>
   real \<times> nat option \<times> ('p, 'g, 'o) world \<Rightarrow> error + real \<times> nat option \<times> ('p, 'g, 'o) world" where
  "train_loop T a epoch n i [] st = Inr st"
| "train_loop T a epoch n i (b # bs) (total_loss, last_i, w) =
     (case train_batch T a epoch n i b (total_loss, w) of
        Inl e \<Rightarrow> Inl e
      | Inr (total_loss', w') \<Rightarrow> train_loop T a epoch n (Suc i) bs (total_loss', Some i, w'))"

definition train ::
  "('t, 'p, 'g, 'o, 's, 'd) torch \<Rightarrow> 'd dataloader \<Rightarrow> int \<Rightarrow> args \<Rightarrow> ('p, 'g, 'o) world \<Rightarrow>
   error + real \<times> args \<times> ('p, 'g, 'o) world" where
  "train T dataloader epoch a0 w0 =
     (let a = a0\<lparr>device := ''cpu''\<rparr>;
          w1 = emit [ModelTrain] (w0\<lparr>training := True\<rparr>);
          bs = batches T dataloader epoch
      in case train_loop T a epoch (length bs) 0 bs (0, None, w1) of
           Inl e \<Rightarrow> Inl e
         | Inr (total_loss, last_i, w2) \<Rightarrow>
             (case last_i of
                None \<Rightarrow> Inl UnboundLocalError
              | Some batch_i \<Rightarrow>
                  Inr (total_loss / real (batch_i + 1), a, emit [Print ''''] w2)))"

subsection \<open>val\<close>

text \<open>One pass of the loop body of \<open>val\<close>, lines 85 to 100.\<close>

definition val_batch ::
  "('t, 'p, 'g, 'o, 's, 'd) torch \<Rightarrow> args \<Rightarrow> int \<Rightarrow> nat \<Rightarrow> nat \<Rightarrow> 't \<times> 't \<times> string \<Rightarrow>
   real \<times> pyfloat \<times> pyfloat \<times> ('p, 'g, 'o) world \<Rightarrow>
   error + real \<times> pyfloat \<times> pyfloat \<times> ('p, 'g, 'o) world" where
  "val_batch T a epoch n batch_i batch acc =
     (case batch of (inp0, gt0, ident) \<Rightarrow>
      case acc of (total_loss, total_psnr, total_org_psnr, w0) \<Rightarrow>
      let inp_data = view T inp0 (patch_shape a);
          gt_data = view T gt0 (patch_shape a);
          w1 = emit [View (patch_shape a), View (patch_shape a)] w0;
          pred = forward T (params w1) (training w1) inp_data;
          w2 = emit [Forward (training w1) (grad_enabled w1)] w1;
          loss = loss_func T pred gt_data;
          org_mse = loss_func T inp_data gt_data;
          w3 = emit [LossFunc loss, LossFunc org_mse] w2;
          psnr = psnr_of loss;
          org_psnr = psnr_of org_mse;
          total_loss' = total_loss + loss;
          total_psnr' = fadd total_psnr psnr;
          total_org_psnr' = fadd total_org_psnr org_psnr
      in if print_iters a = 0 then Inl ZeroDivisionError
         else if int batch_i mod print_iters a = 0
         then Inr (total_loss', total_psnr', total_org_psnr',
                   emit [LogInfo (ValLog epoch (batch_i + 1) n loss
                                   (total_loss' / real (batch_i + 1)) psnr
                                   (fdiv total_psnr' (batch_i + 1)) org_psnr
                                   (fdiv total_org_psnr' (batch_i + 1)))] w3)
         else Inr (total_loss', total_psnr', total_org_psnr', w3))"

fun val_loop ::
  "('t, 'p, 'g, 'o, 's, 'd) torch \<Rightarrow> args \<Rightarrow> int \<Rightarrow> nat \<Rightarrow> nat \<Rightarrow> ('t \<times> 't \<times> string) list \<Rightarrow>
   real \<times> pyfloat \<times> pyfloat \<times> ('p, 'g, 'o) world \<Rightarrow>
   error + real \<times> pyfloat \<times> pyfloat \<times> ('p, 'g, 'o) world" where
  "val_loop T a epoch n i [] st = Inr st"
| "val_loop T a epoch n i (b # bs) st =
     (case val_batch T a epoch n i b st of
        Inl e \<Rightarrow> Inl e
      | Inr st' \<Rightarrow> val_loop T a epoch n (Suc i) bs st')"

definition val ::
  "('t, 'p, 'g, 'o, 's, 'd) torch \<Rightarrow> 'd dataloader \<Rightarrow> int \<Rightarrow> args \<Rightarrow> ('p, 'g, 'o) world \<Rightarrow>
   error + real \<times> args \<times> ('p, 'g, 'o) world" where
  "val T dataloader epoch a0 w0 =
     (let a = a0\<lparr>device := ''cpu''\<rparr>;
          w1 = emit [ModelEval] (w0\<lparr>training := False\<rparr>);
          w2 = emit [NoGradEnter] (w1\<lparr>grad_enabled := False\<rparr>);
          bs = batches T dataloader epoch;
          n = length bs
      in case val_loop T a epoch n 0 bs (0, Finite 0, Finite 0, w2) of
           Inl e \<Rightarrow> Inl e
         | Inr (total_loss, total_psnr, total_org_psnr, w3) \<Rightarrow>
             (let w4 = emit [NoGradExit] (w3\<lparr>grad_enabled := grad_enabled w1\<rparr>)
              in if n = 0 then Inl ZeroDivisionError
                 else Inr (total_loss / real n, a,
                           emit [LogInfo (MeanPsnr (fdiv total_psnr n)),
                                 LogInfo (MeanOrgPsnr (fdiv total_org_psnr n)),
                                 LogInfo (MeanLoss (total_loss / real n))] w4)))"

subsection \<open>main\<close>

text \<open>\<open>'{}'.format(epoch)\<close> for the checkpoint's file name.\<close>

fun str_nat :: "nat \<Rightarrow> string" where
  "str_nat n =
     (if n < 10 then [''0123456789'' ! n]
      else str_nat (n div 10) @ [''0123456789'' ! (n mod 10)])"

declare str_nat.simps [simp del]

definition str_int :: "int \<Rightarrow> string" where
  "str_int i = (if i < 0 then CHR ''-'' # str_nat (nat (- i)) else str_nat (nat i))"

definition best_path :: "args \<Rightarrow> string" where
  "best_path a = save_dir a @ ''/model_best.pth''"

definition checkpoint_path :: "args \<Rightarrow> int \<Rightarrow> string" where
  "checkpoint_path a epoch = save_dir a @ ''/model_checkpoint_'' @ str_int epoch @ ''.pth''"

text \<open>What the epoch loop of \<open>main\<close> carries from one epoch to the next: the
  configuration object, the world, the scheduler and \<open>best_loss\<close>.\<close>

record ('p, 'g, 'o, 's) run_state =
  rs_args :: args
  rs_world :: "('p, 'g, 'o) world"
  rs_sched :: 's
  best_loss :: pyfloat

text \<open>The body of the epoch loop, lines 134 to 144. Nothing catches an exception, so one
  raised by \<open>train\<close>, by \<open>val\<close> or by \<open>epoch % args.save_interval\<close> ends the run: the
  result is the error, and no state is kept of a run that raised.\<close>

definition epoch_step ::
  "('t, 'p, 'g, 'o, 's, 'd) torch \<Rightarrow> 'd dataloader \<Rightarrow> 'd dataloader \<Rightarrow>
   ('p, 'g, 'o, 's) run_state \<Rightarrow> int \<Rightarrow> error + ('p, 'g, 'o, 's) run_state" where
  "epoch_step T train_loader val_loader st epoch =
     (let w0 = emit [LogInfo (EpochLog epoch (num_epochs (rs_args st)))] (rs_world st)
      in case train T train_loader epoch (rs_args st) w0 of
           Inl e \<Rightarrow> Inl e
         | Inr (t_loss, a1, w1) \<Rightarrow>
             (case val T val_loader epoch a1 w1 of
                Inl e \<Rightarrow> Inl e
              | Inr (v_loss, a2, w2) \<Rightarrow>
                  (let stepped = sched_step T (rs_sched st) v_loss (opt_lr w2);
                       w3 = emit [SchedStep v_loss] (w2\<lparr>opt_lr := snd stepped\<rparr>);
                       improved = flt (Finite v_loss) (best_loss st);
                       best_loss' = (if improved then Finite v_loss else best_loss st);
                       w4 = (if improved then emit [Save (best_path a2) (params w3)] w3
                             else w3)
                   in if save_interval a2 = 0 then Inl ZeroDivisionError
                      else Inr \<lparr>rs_args = a2,
                                rs_world =
                                  (if epoch mod save_interval a2 = 0
                                   then emit [Save (checkpoint_path a2 epoch) (params w4)] w4
                                   else w4),
                                rs_sched = fst stepped,
                                best_loss = best_loss'\<rparr>)))"

fun run_epochs ::
  "('t, 'p, 'g, 'o, 's, 'd) torch \<Rightarrow> 'd dataloader \<Rightarrow> 'd dataloader \<Rightarrow>
   ('p, 'g, 'o, 's) run_state \<Rightarrow> int list \<Rightarrow> error + ('p, 'g, 'o, 's) run_state" where
  "run_epochs T train_loader val_loader st [] = Inr st"
| "run_epochs T train_loader val_loader st (epoch # epochs) =
     (case epoch_step T train_loader val_loader st epoch of
        Inl e \<Rightarrow> Inl e
      | Inr st' \<Rightarrow> run_epochs T train_loader val_loader st' epochs)"

text \<open>Lines 118 to 121: the two loaders of \<open>main\<close>.\<close>

definition train_loader_of :: "('t, 'p, 'g, 'o, 's, 'd) torch \<Rightarrow> args \<Rightarrow> 'd dataloader" where
  "train_loader_of T a =
     \<lparr>dl_dataset = CTDataset T (train_path a) (patch_n a) (patch_size a),
      dl_batch_size = 1, dl_shuffle = True, dl_num_workers = num_workers a\<rparr>"

definition val_loader_of :: "('t, 'p, 'g, 'o, 's, 'd) torch \<Rightarrow> args \<Rightarrow> 'd dataloader" where
  "val_loader_of T a =
     \<lparr>dl_dataset = CTDataset T (val_path a) (patch_n a) (patch_size a),
      dl_batch_size = 1, dl_shuffle = False, dl_num_workers = num_workers a\<rparr>"

text \<open>Lines 110 to 132: the state in which the epoch loop starts. A new module is in
  training mode and gradients are tracked.\<close>

definition init_state ::
  "('t, 'p, 'g, 'o, 's, 'd) torch \<Rightarrow> args \<Rightarrow> ('p, 'g, 'o, 's) run_state" where
  "init_state T a =
     (let device = ''cpu'';
          model = (if pretrained a \<noteq> [] then torch_load T (pretrained a) else BRDNet T)
      in \<lparr>rs_args = a,
          rs_world =
            \<lparr>params = model, training = True, grad_enabled = True, grad = None,
             opt_state = Adam T model (lr a), opt_lr = lr a,
             trace =
               (if \<not> path_exists T (save_dir a) then [Makedirs (save_dir a)] else []) @
               [SetupLogger ''brdnet'' (save_dir a) 0, LogInfo (UsingDevice device),
                LogInfo (ArgsLog a), ModelTo device]\<rparr>,
          rs_sched =
            ReduceLROnPlateau T
              \<lparr>pc_mode = ''min'', pc_factor = 3 / 10, pc_verbose = True, pc_patience = 6,
               pc_min_lr = 1 / 10 ^ 7\<rparr>,
          best_loss = PosInf\<rparr>)"

definition main_loop ::
  "('t, 'p, 'g, 'o, 's, 'd) torch \<Rightarrow> args \<Rightarrow> error + ('p, 'g, 'o, 's) run_state" where
  "main_loop T a =
     (case run_epochs T (train_loader_of T a) (val_loader_of T a) (init_state T a)
             [1..num_epochs a] of
        Inl e \<Rightarrow> Inl e
      | Inr st \<Rightarrow> Inr (st\<lparr>rs_world := emit [LogInfo Done] (rs_world st)\<rparr>))"

definition main ::
  "('t, 'p, 'g, 'o, 's, 'd) torch \<Rightarrow> (string \<Rightarrow> int option) \<Rightarrow> (string \<Rightarrow> real option) \<Rightarrow>
   (string \<times> string) list \<Rightarrow> error + ('p, 'g, 'o, 's) run_state" where
  "main T py_int py_float argv =
     (case get_args py_int py_float argv of
        Inl e \<Rightarrow> Inl e
      | Inr a \<Rightarrow> main_loop T a)"

text \<open>The metrics handed to the scheduler, in order, and the paths saved to.\<close>

fun sched_metrics :: "'p event list \<Rightarrow> real list" where
  "sched_metrics [] = []"
| "sched_metrics (SchedStep v # evs) = v # sched_metrics evs"
| "sched_metrics (_ # evs) = sched_metrics evs"

fun saved_paths :: "'p event list \<Rightarrow> string list" where
  "saved_paths [] = []"
| "saved_paths (Save path p # evs) = path # saved_paths evs"
| "saved_paths (_ # evs) = saved_paths evs"

text \<open>The values the loss function returned, in order, and the trace without the
  logger's lines.\<close>

fun loss_values :: "'p event list \<Rightarrow> real list" where
  "loss_values [] = []"
| "loss_values (LossFunc v # evs) = v # loss_values evs"
| "loss_values (_ # evs) = loss_values evs"

fun is_log :: "'p event \<Rightarrow> bool" where
  "is_log (LogInfo m) = True"
| "is_log _ = False"

definition calls :: "'p event list \<Rightarrow> 'p event list" where
  "calls evs = filter (\<lambda>ev. \<not> is_log ev) evs"

text \<open>The two errors \<open>val\<close> computes for a batch, lines 85 to 89: that of the model's
  output and that of the noisy input itself, both against the ground truth.\<close>

definition val_loss ::
  "('t, 'p, 'g, 'o, 's, 'd) torch \<Rightarrow> args \<Rightarrow> 'p \<Rightarrow> bool \<Rightarrow> 't \<times> 't \<times> string \<Rightarrow> real" where
  "val_loss T a p tr b =
     loss_func T (forward T p tr (view T (fst b) (patch_shape a)))
       (view T (fst (snd b)) (patch_shape a))"

definition val_org_mse ::
  "('t, 'p, 'g, 'o, 's, 'd) torch \<Rightarrow> args \<Rightarrow> 't \<times> 't \<times> string \<Rightarrow> real" where
  "val_org_mse T a b =
     loss_func T (view T (fst b) (patch_shape a)) (view T (fst (snd b)) (patch_shape a))"

text \<open>The framework calls of one pass of the loop of \<open>train\<close>, in order, given whether
  gradients are tracked and the loss the pass computed; and those of one pass of the loop
  of \<open>val\<close>, given the model's mode and the two errors computed.\<close>

definition train_ops :: "args \<Rightarrow> bool \<Rightarrow> real \<Rightarrow> 'p event list" where
  "train_ops a ge v =
     (if patch_size a \<noteq> 0 then [View (patch_shape a), View (patch_shape a)] else []) @
     [To (device a), To (device a), Forward True ge, LossFunc v, ZeroGrad, Backward, OptStep]"

definition val_ops :: "args \<Rightarrow> bool \<Rightarrow> bool \<Rightarrow> real \<Rightarrow> real \<Rightarrow> 'p event list" where
  "val_ops a tr ge v u =
     [View (patch_shape a), View (patch_shape a), Forward tr ge, LossFunc v, LossFunc u]"

text \<open>The devices the model and the tensors were moved to, in order.\<close>

fun devices :: "'p event list \<Rightarrow> string list" where
  "devices [] = []"
| "devices (To d # evs) = d # devices evs"
| "devices (ModelTo d # evs) = d # devices evs"
| "devices (_ # evs) = devices evs"


subsection \<open>A small concrete framework\<close>

text \<open>A framework to run the driver on: tensors are reals, the network multiplies its
  input by its one parameter, the loss is the squared difference, a step of the optimizer
  subtracts the rate times the gradient, the scheduler leaves the rate alone, and a
  dataset is the list of its batches.\<close>

definition toy :: "(real, real, real, unit, unit, (real \<times> real \<times> string) list) torch" where
  "toy =
     \<lparr>path_exists = (\<lambda>_. True),
      CTDataset = (\<lambda>path pn ps. if path = ''empty'' then [] else [(1, 2, ''a''), (2, 2, ''b'')]),
      batches = (\<lambda>dl e. dl_dataset dl),
      BRDNet = 1,
      torch_load = (\<lambda>_. 1),
      Adam = (\<lambda>_ _. ()),
      ReduceLROnPlateau = (\<lambda>_. ()),
      view = (\<lambda>t _. t),
      to = (\<lambda>t _. t),
      forward = (\<lambda>p _ x. p * x),
      loss_func = (\<lambda>x y. (x - y) ^ 2),
      backward = (\<lambda>_ p _ x y. 2 * (p * x - y) * x),
      opt_step = (\<lambda>s r p g. (s, case g of None \<Rightarrow> p | Some d \<Rightarrow> p - r * d)),
      sched_step = (\<lambda>s v r. (s, r))\<rparr>"

definition toy_loader :: "(real \<times> real \<times> string) list dataloader" where
  "toy_loader =
     \<lparr>dl_dataset = [(1, 2, ''a''), (2, 2, ''b'')], dl_batch_size = 1, dl_shuffle = False,
      dl_num_workers = 2\<rparr>"

definition empty_loader :: "(real \<times> real \<times> string) list dataloader" where
  "empty_loader =
     \<lparr>dl_dataset = [], dl_batch_size = 1, dl_shuffle = False, dl_num_workers = 2\<rparr>"

text \<open>A loader all of whose batches have a positive error.\<close>

definition pos_loader :: "(real \<times> real \<times> string) list dataloader" where
  "pos_loader =
     \<lparr>dl_dataset = [(1, 2, ''a''), (3, 2, ''b'')], dl_batch_size = 1, dl_shuffle = False,
      dl_num_workers = 2\<rparr>"

definition toy_args :: args where
  "toy_args =
     \<lparr>mode = ''train'', pretrained = [], train_path = ''t'', val_path = ''v'',
      save_dir = ''ckpt'', result_fig = True, transform = False, patch_n = 10,
      patch_size = 50, batch_size = 16, num_epochs = 2, print_iters = 20,
      decay_iters = 3000, save_interval = 1, test_interval = 1, lr = 0, device = ''cuda'',
      num_workers = 2, multi_gpu = False\<rparr>"

definition toy_world :: "(real, real, unit) world" where
  "toy_world =
     \<lparr>params = 1, training = True, grad_enabled = True, grad = None, opt_state = (),
      opt_lr = 0, trace = []\<rparr>"


subsection \<open>Traces\<close>

lemma emit_fields [simp]:
  "trace (emit evs w) = trace w @ evs"
  "params (emit evs w) = params w"
  "training (emit evs w) = training w"
  "grad_enabled (emit evs w) = grad_enabled w"
  "grad (emit evs w) = grad w"
  "opt_state (emit evs w) = opt_state w"
  "opt_lr (emit evs w) = opt_lr w"
  by (simp_all add: emit_def)

lemma sched_metrics_append [simp]:
  "sched_metrics (xs @ ys) = sched_metrics xs @ sched_metrics ys"
  by (induction xs rule: sched_metrics.induct) simp_all

lemma saved_paths_append [simp]:
  "saved_paths (xs @ ys) = saved_paths xs @ saved_paths ys"
  by (induction xs rule: saved_paths.induct) simp_all

lemma loss_values_append [simp]:
  "loss_values (xs @ ys) = loss_values xs @ loss_values ys"
  by (induction xs rule: loss_values.induct) simp_all

lemma calls_append [simp]: "calls (xs @ ys) = calls xs @ calls ys"
  by (simp add: calls_def)

lemma train_batch_Inr:
  assumes "train_batch T a e n i b (tot, w) = Inr (tot', w')" and "training w"
  shows "\<exists>v lg. tot' = tot + v \<and> trace w' = trace w @ train_ops a (grad_enabled w) v @ lg
           \<and> list_all is_log lg \<and> training w' \<and> grad_enabled w' = grad_enabled w"
  using assms
  by (cases b) (auto simp: train_batch_def Let_def train_ops_def split: if_splits)

lemma train_batch_total:
  "print_iters a \<noteq> 0 \<Longrightarrow> \<exists>r. train_batch T a e n i b acc = Inr r"
  by (cases b; cases acc) (simp add: train_batch_def Let_def)

lemma train_batch_zero:
  "print_iters a = 0 \<Longrightarrow> train_batch T a e n i b acc = Inl ZeroDivisionError"
  by (cases b; cases acc) (simp add: train_batch_def Let_def)


subsection \<open>The training loop\<close>

lemma calls_Nil [simp]: "calls [] = []"
  by (simp add: calls_def)

lemma calls_logs: "list_all is_log lg \<Longrightarrow> calls lg = []"
  by (induction lg) (simp_all add: calls_def)

lemma calls_train_ops [simp]: "calls (train_ops a g v) = train_ops a g v"
  by (simp add: calls_def train_ops_def)

lemma train_loop_Inr:
  assumes "train_loop T a e n i bs (tot, last_i, w) = Inr (tot', last_i', w')" and "training w"
  shows "\<exists>vs evs. length vs = length bs \<and> tot' = tot + sum_list vs
           \<and> trace w' = trace w @ evs
           \<and> calls evs = concat (map (train_ops a (grad_enabled w)) vs)
           \<and> last_i' = (if bs = [] then last_i else Some (i + length bs - 1))
           \<and> training w' \<and> grad_enabled w' = grad_enabled w"
  using assms
proof (induction bs arbitrary: i tot last_i w)
  case Nil
  then show ?case by (intro exI [of _ "[]"]) simp
next
  case (Cons b bs)
  from Cons.prems(1) obtain tot1 w1 where
    step: "train_batch T a e n i b (tot, w) = Inr (tot1, w1)" and
    rest: "train_loop T a e n (Suc i) bs (tot1, Some i, w1) = Inr (tot', last_i', w')"
    by (auto split: sum.splits)
  from train_batch_Inr [OF step Cons.prems(2)] obtain v lg where
    b: "tot1 = tot + v" "trace w1 = trace w @ train_ops a (grad_enabled w) v @ lg"
       "list_all is_log lg" "training w1" "grad_enabled w1 = grad_enabled w"
    by blast
  from Cons.IH [OF rest b(4)] obtain vs evs where
    r: "length vs = length bs" "tot' = tot1 + sum_list vs" "trace w' = trace w1 @ evs"
       "calls evs = concat (map (train_ops a (grad_enabled w1)) vs)"
       "last_i' = (if bs = [] then Some i else Some (Suc i + length bs - 1))"
       "training w'" "grad_enabled w' = grad_enabled w1"
    by blast
  show ?case
  proof (intro exI [of _ "v # vs"] exI [of _ "train_ops a (grad_enabled w) v @ lg @ evs"] conjI)
    show "last_i' = (if b # bs = [] then last_i else Some (i + length (b # bs) - 1))"
      using r(5) by (cases bs) simp_all
  qed (use b r calls_logs [OF b(3)] in simp_all)
qed

lemma train_loop_total:
  "print_iters a \<noteq> 0 \<Longrightarrow> \<exists>r. train_loop T a e n i bs st = Inr r"
proof (induction bs arbitrary: i st)
  case Nil
  then show ?case by (cases st) simp
next
  case (Cons b bs)
  obtain tot last_i w where st: "st = (tot, last_i, w)" by (cases st)
  from train_batch_total [OF Cons.prems] obtain tot1 w1 where
    "train_batch T a e n i b (tot, w) = Inr (tot1, w1)" by fastforce
  with Cons.IH [OF Cons.prems] st show ?case by simp
qed

lemma loss_values_calls: "loss_values (calls evs) = loss_values evs"
  by (induction evs rule: loss_values.induct) (simp_all add: calls_def)

lemma loss_values_train_ops: "loss_values (concat (map (train_ops a g) vs)) = vs"
  by (induction vs) (simp_all add: train_ops_def)

lemma train_Inr:
  assumes "train T dl e a w = Inr (l, a', w')"
  shows "\<exists>vs evs. vs \<noteq> [] \<and> length vs = length (batches T dl e)
           \<and> l = sum_list vs / real (length vs)
           \<and> a' = a\<lparr>device := ''cpu''\<rparr>
           \<and> trace w' = trace w @ evs
           \<and> calls evs =
               [ModelTrain] @ concat (map (train_ops a' (grad_enabled w)) vs) @ [Print []]
           \<and> training w' \<and> grad_enabled w' = grad_enabled w"
proof -
  define w1 where "w1 = emit [ModelTrain] (w\<lparr>training := True\<rparr>)"
  define bs where "bs = batches T dl e"
  define a1 where "a1 = a\<lparr>device := ''cpu''\<rparr>"
  from assms obtain tot last_i w2 where
    loop: "train_loop T a1 e (length bs) 0 bs (0, None, w1) = Inr (tot, last_i, w2)"
    by (auto simp: train_def Let_def w1_def bs_def a1_def split: sum.splits)
  have tr: "training w1" by (simp add: w1_def)
  from train_loop_Inr [OF loop tr] obtain vs evs where
    r: "length vs = length bs" "tot = 0 + sum_list vs" "trace w2 = trace w1 @ evs"
       "calls evs = concat (map (train_ops a1 (grad_enabled w1)) vs)"
       "last_i = (if bs = [] then None else Some (0 + length bs - 1))"
       "training w2" "grad_enabled w2 = grad_enabled w1"
    by blast
  from assms loop have ne: "bs \<noteq> []"
    using r(5) by (auto simp: train_def Let_def w1_def bs_def a1_def split: sum.splits)
  from assms loop ne r(5) have res:
    "l = tot / real (length bs)" "a' = a1" "w' = emit [Print []] w2"
    by (auto simp: train_def Let_def w1_def bs_def a1_def split: sum.splits)
  show ?thesis
  proof (intro exI [of _ vs] exI [of _ "[ModelTrain] @ evs @ [Print []]"] conjI)
    show "vs \<noteq> []" using ne r(1) by auto
    show "calls ([ModelTrain] @ evs @ [Print []]) =
          [ModelTrain] @ concat (map (train_ops a' (grad_enabled w)) vs) @ [Print []]"
      using r(4) res(2) by (simp add: calls_def w1_def)
  qed (use r res in \<open>simp_all add: w1_def bs_def a1_def\<close>)
qed

lemma train_total:
  assumes "batches T dl e \<noteq> []" and "print_iters a \<noteq> 0"
  shows "\<exists>r. train T dl e a w = Inr r"
proof -
  define w1 where "w1 = emit [ModelTrain] (w\<lparr>training := True\<rparr>)"
  define bs where "bs = batches T dl e"
  define a1 where "a1 = a\<lparr>device := ''cpu''\<rparr>"
  have "print_iters a1 \<noteq> 0" using assms(2) by (simp add: a1_def)
  from train_loop_total [OF this] obtain tot last_i w2 where
    loop: "train_loop T a1 e (length bs) 0 bs (0, None, w1) = Inr (tot, last_i, w2)"
    by (metis prod_cases3)
  have tr: "training w1" by (simp add: w1_def)
  from train_loop_Inr [OF loop tr] assms(1) have "last_i = Some (length bs - 1)"
    by (auto simp: bs_def)
  with loop show ?thesis
    by (simp add: train_def Let_def w1_def bs_def a1_def)
qed

lemma train_empty:
  assumes "batches T dl e = []"
  shows "train T dl e a w = Inl UnboundLocalError"
  using assms by (simp add: train_def Let_def)

lemma train_zero_print_iters:
  assumes "batches T dl e \<noteq> []" and "print_iters a = 0"
  shows "train T dl e a w = Inl ZeroDivisionError"
proof -
  from assms(1) obtain b bs where "batches T dl e = b # bs" by (cases "batches T dl e") auto
  then show ?thesis
    using assms(2) by (simp add: train_def Let_def train_batch_zero)
qed


subsection \<open>The validation loop\<close>

lemma emit_emit [simp]: "emit evs' (emit evs w) = emit (evs @ evs') w"
  by (simp add: emit_def)

lemma val_batch_eq:
  "val_batch T a e n i b (sl, sp, sq, w) =
     (if print_iters a = 0 then Inl ZeroDivisionError
      else Inr (sl + val_loss T a (params w) (training w) b,
                fadd sp (psnr_of (val_loss T a (params w) (training w) b)),
                fadd sq (psnr_of (val_org_mse T a b)),
                emit (val_ops a (training w) (grad_enabled w)
                        (val_loss T a (params w) (training w) b) (val_org_mse T a b) @
                      (if int i mod print_iters a = 0
                       then [LogInfo (ValLog e (i + 1) n (val_loss T a (params w) (training w) b)
                               ((sl + val_loss T a (params w) (training w) b) / real (i + 1))
                               (psnr_of (val_loss T a (params w) (training w) b))
                               (fdiv (fadd sp (psnr_of (val_loss T a (params w) (training w) b)))
                                  (i + 1))
                               (psnr_of (val_org_mse T a b))
                               (fdiv (fadd sq (psnr_of (val_org_mse T a b))) (i + 1)))]
                       else [])) w))"
  by (cases b) (simp add: val_batch_def Let_def val_ops_def val_loss_def val_org_mse_def)

lemma calls_val_ops [simp]: "calls (val_ops a tr ge v u) = val_ops a tr ge v u"
  by (simp add: calls_def val_ops_def)

lemma val_batch_ex:
  assumes "print_iters a \<noteq> 0"
  shows "\<exists>lg. list_all is_log lg \<and>
           val_batch T a e n i b (sl, sp, sq, w) =
             Inr (sl + val_loss T a (params w) (training w) b,
                  fadd sp (psnr_of (val_loss T a (params w) (training w) b)),
                  fadd sq (psnr_of (val_org_mse T a b)),
                  emit (val_ops a (training w) (grad_enabled w)
                          (val_loss T a (params w) (training w) b) (val_org_mse T a b) @ lg) w)"
  apply (simp only: val_batch_eq if_not_P [OF assms])
  apply (rule exI)
  apply (rule conjI)
   prefer 2
   apply (rule refl)
  apply simp
  done

lemma val_batch_Inr:
  assumes "val_batch T a e n i b (sl, sp, sq, w) = Inr (sl', sp', sq', w')"
  shows "\<exists>evs. w' = emit evs w
           \<and> calls evs = val_ops a (training w) (grad_enabled w)
                           (val_loss T a (params w) (training w) b) (val_org_mse T a b)
           \<and> sl' = sl + val_loss T a (params w) (training w) b
           \<and> sp' = fadd sp (psnr_of (val_loss T a (params w) (training w) b))
           \<and> sq' = fadd sq (psnr_of (val_org_mse T a b))"
proof -
  from assms have nz: "print_iters a \<noteq> 0"
    by (auto simp: val_batch_eq split: if_splits)
  from val_batch_ex [OF nz, of T e n i b sl sp sq w] assms obtain lg where
    lg: "list_all is_log lg" and
    w': "w' = emit (val_ops a (training w) (grad_enabled w)
                     (val_loss T a (params w) (training w) b) (val_org_mse T a b) @ lg) w"
    and acc: "sl' = sl + val_loss T a (params w) (training w) b"
       "sp' = fadd sp (psnr_of (val_loss T a (params w) (training w) b))"
       "sq' = fadd sq (psnr_of (val_org_mse T a b))"
    by auto
  from w' acc calls_logs [OF lg] show ?thesis
    by (intro exI [of _ "val_ops a (training w) (grad_enabled w)
                     (val_loss T a (params w) (training w) b) (val_org_mse T a b) @ lg"]) simp
qed

lemma val_batch_total:
  "print_iters a \<noteq> 0 \<Longrightarrow> \<exists>r. val_batch T a e n i b acc = Inr r"
  by (cases b; cases acc) (simp add: val_batch_def Let_def)


lemma val_loop_Inr:
  assumes "val_loop T a e n i bs (sl, sp, sq, w) = Inr (sl', sp', sq', w')"
  shows "\<exists>evs. w' = emit evs w
           \<and> calls evs =
               concat (map (\<lambda>b. val_ops a (training w) (grad_enabled w)
                                  (val_loss T a (params w) (training w) b) (val_org_mse T a b)) bs)
           \<and> sl' = sl + sum_list (map (val_loss T a (params w) (training w)) bs)
           \<and> sp' = foldl fadd sp (map (\<lambda>b. psnr_of (val_loss T a (params w) (training w) b)) bs)
           \<and> sq' = foldl fadd sq (map (\<lambda>b. psnr_of (val_org_mse T a b)) bs)"
  using assms
proof (induction bs arbitrary: i sl sp sq w)
  case Nil
  then show ?case by (intro exI [of _ "[]"]) (simp add: emit_def)
next
  case (Cons b bs)
  from Cons.prems obtain sl1 sp1 sq1 w1 where
    step: "val_batch T a e n i b (sl, sp, sq, w) = Inr (sl1, sp1, sq1, w1)" and
    rest: "val_loop T a e n (Suc i) bs (sl1, sp1, sq1, w1) = Inr (sl', sp', sq', w')"
    by (auto split: sum.splits)
  from val_batch_Inr [OF step] obtain evs1 where
    b: "w1 = emit evs1 w"
       "calls evs1 = val_ops a (training w) (grad_enabled w)
                       (val_loss T a (params w) (training w) b) (val_org_mse T a b)"
       "sl1 = sl + val_loss T a (params w) (training w) b"
       "sp1 = fadd sp (psnr_of (val_loss T a (params w) (training w) b))"
       "sq1 = fadd sq (psnr_of (val_org_mse T a b))"
    by blast
  from Cons.IH [OF rest] obtain evs where
    r: "w' = emit evs w1"
       "calls evs =
          concat (map (\<lambda>b. val_ops a (training w1) (grad_enabled w1)
                             (val_loss T a (params w1) (training w1) b) (val_org_mse T a b)) bs)"
       "sl' = sl1 + sum_list (map (val_loss T a (params w1) (training w1)) bs)"
       "sp' = foldl fadd sp1 (map (\<lambda>b. psnr_of (val_loss T a (params w1) (training w1) b)) bs)"
       "sq' = foldl fadd sq1 (map (\<lambda>b. psnr_of (val_org_mse T a b)) bs)"
    by blast
  show ?case
    by (intro exI [of _ "evs1 @ evs"]) (use b r in simp)
qed

lemma val_loop_total:
  "print_iters a \<noteq> 0 \<Longrightarrow> \<exists>r. val_loop T a e n i bs st = Inr r"
proof (induction bs arbitrary: i st)
  case Nil
  then show ?case by (cases st rule: prod_cases4) simp
next
  case (Cons b bs)
  obtain sl sp sq w where st: "st = (sl, sp, sq, w)"
    by (cases st rule: prod_cases4)
  from val_batch_total [OF Cons.prems] obtain r where
    r: "val_batch T a e n i b (sl, sp, sq, w) = Inr r" by blast
  from Cons.IH [OF Cons.prems] obtain r' where
    "val_loop T a e n (Suc i) bs r = Inr r'" by blast
  with r st show ?case by (intro exI [of _ r']) simp
qed


lemma patch_shape_device [simp]: "patch_shape (a\<lparr>device := d\<rparr>) = patch_shape a"
  by (simp add: patch_shape_def)

lemma val_loss_device [simp]: "val_loss T (a\<lparr>device := d\<rparr>) = val_loss T a"
  by (intro ext) (simp add: val_loss_def)

lemma val_org_mse_device [simp]: "val_org_mse T (a\<lparr>device := d\<rparr>) = val_org_mse T a"
  by (intro ext) (simp add: val_org_mse_def)

lemma val_ops_device [simp]: "val_ops (a\<lparr>device := d\<rparr>) = val_ops a"
  by (intro ext) (simp add: val_ops_def)

lemma val_empty:
  assumes "batches T dl e = []"
  shows "val T dl e a w = Inl ZeroDivisionError"
  using assms by (simp add: val_def Let_def)


lemma val_Inr:
  assumes "val T dl e a w = Inr (v, a', w')"
  shows "\<exists>evs. batches T dl e \<noteq> []
           \<and> v = sum_list (map (val_loss T a (params w) False) (batches T dl e))
                 / real (length (batches T dl e))
           \<and> a' = a\<lparr>device := ''cpu''\<rparr>
           \<and> w' = emit (evs @
                    [LogInfo (MeanPsnr (fdiv (foldl fadd (Finite 0)
                        (map (\<lambda>b. psnr_of (val_loss T a (params w) False b)) (batches T dl e)))
                        (length (batches T dl e)))),
                     LogInfo (MeanOrgPsnr (fdiv (foldl fadd (Finite 0)
                        (map (\<lambda>b. psnr_of (val_org_mse T a b)) (batches T dl e)))
                        (length (batches T dl e)))),
                     LogInfo (MeanLoss v)]) (w\<lparr>training := False\<rparr>)
           \<and> calls evs =
               [ModelEval, NoGradEnter] @
               concat (map (\<lambda>b. val_ops a False False (val_loss T a (params w) False b)
                                  (val_org_mse T a b)) (batches T dl e)) @
               [NoGradExit]"
proof -
  define bs where "bs = batches T dl e"
  define a1 where "a1 = a\<lparr>device := ''cpu''\<rparr>"
  define w2 where "w2 = emit [NoGradEnter]
     ((emit [ModelEval] (w\<lparr>training := False\<rparr>))\<lparr>grad_enabled := False\<rparr>)"
  from assms obtain sl sp sq w3 where
    loop: "val_loop T a1 e (length bs) 0 bs (0, Finite 0, Finite 0, w2) = Inr (sl, sp, sq, w3)"
    by (auto simp: val_def Let_def bs_def a1_def w2_def split: sum.splits)
  have w2: "training w2 = False" "grad_enabled w2 = False" "params w2 = params w"
    by (simp_all add: w2_def)
  from val_loop_Inr [OF loop] obtain evs where
    r: "w3 = emit evs w2"
       "calls evs = concat (map (\<lambda>b. val_ops a False False (val_loss T a (params w) False b)
                                  (val_org_mse T a b)) bs)"
       "sl = 0 + sum_list (map (val_loss T a (params w) False) bs)"
       "sp = foldl fadd (Finite 0) (map (\<lambda>b. psnr_of (val_loss T a (params w) False b)) bs)"
       "sq = foldl fadd (Finite 0) (map (\<lambda>b. psnr_of (val_org_mse T a b)) bs)"
    unfolding w2 a1_def val_loss_device val_org_mse_device val_ops_device by blast
  from assms loop have ne: "bs \<noteq> []"
    by (auto simp: val_def Let_def bs_def a1_def w2_def split: sum.splits if_splits)
  from assms loop ne have res:
    "v = sl / real (length bs)" "a' = a1"
    "w' = emit [LogInfo (MeanPsnr (fdiv sp (length bs))),
                LogInfo (MeanOrgPsnr (fdiv sq (length bs))),
                LogInfo (MeanLoss (sl / real (length bs)))]
            (emit [NoGradExit] (w3\<lparr>grad_enabled := grad_enabled w\<rparr>))"
    by (auto simp: val_def Let_def bs_def a1_def w2_def split: sum.splits if_splits)
  have w': "emit xs ((emit evs w2)\<lparr>grad_enabled := grad_enabled w\<rparr>) =
            emit ([ModelEval, NoGradEnter] @ evs @ xs) (w\<lparr>training := False\<rparr>)" for xs
    by (simp add: w2_def emit_def)
  show ?thesis
    by (intro exI [of _ "[ModelEval, NoGradEnter] @ evs @ [NoGradExit]"])
       (use ne r res w' in \<open>simp add: bs_def [symmetric] a1_def calls_def\<close>)
qed

lemma val_total:
  assumes "batches T dl e \<noteq> []" and "print_iters a \<noteq> 0"
  shows "\<exists>r. val T dl e a w = Inr r"
proof -
  define bs where "bs = batches T dl e"
  define a1 where "a1 = a\<lparr>device := ''cpu''\<rparr>"
  define w2 where "w2 = emit [NoGradEnter]
     ((emit [ModelEval] (w\<lparr>training := False\<rparr>))\<lparr>grad_enabled := False\<rparr>)"
  have "print_iters a1 \<noteq> 0" using assms(2) by (simp add: a1_def)
  from val_loop_total [OF this] obtain sl sp sq w3 where
    loop: "val_loop T a1 e (length bs) 0 bs (0, Finite 0, Finite 0, w2) = Inr (sl, sp, sq, w3)"
    by (metis prod_cases4)
  with assms(1) show ?thesis
    by (simp add: val_def Let_def bs_def a1_def w2_def)
qed


subsection \<open>The epoch loop\<close>

lemma devices_append [simp]: "devices (xs @ ys) = devices xs @ devices ys"
  by (induction xs rule: devices.induct) simp_all

lemma sched_metrics_calls: "sched_metrics (calls evs) = sched_metrics evs"
  by (induction evs rule: sched_metrics.induct) (simp_all add: calls_def)

lemma saved_paths_calls: "saved_paths (calls evs) = saved_paths evs"
  by (induction evs rule: saved_paths.induct) (simp_all add: calls_def)

lemma devices_calls: "devices (calls evs) = devices evs"
  by (induction evs rule: devices.induct) (simp_all add: calls_def)

lemma train_ops_quiet:
  "sched_metrics (concat (map (train_ops a g) vs)) = []"
  "saved_paths (concat (map (train_ops a g) vs)) = []"
  "set (devices (concat (map (train_ops a g) vs))) \<subseteq> {device a}"
  by (induction vs) (simp_all add: train_ops_def)

lemma val_ops_quiet:
  "sched_metrics (concat (map (\<lambda>b. val_ops a tr ge (f b) (h b)) bs)) = []"
  "saved_paths (concat (map (\<lambda>b. val_ops a tr ge (f b) (h b)) bs)) = []"
  "devices (concat (map (\<lambda>b. val_ops a tr ge (f b) (h b)) bs)) = []"
  by (induction bs) (simp_all add: val_ops_def)

lemma train_quiet:
  assumes "train T dl e a w = Inr (l, a', w')"
  shows "\<exists>evs. trace w' = trace w @ evs \<and> sched_metrics evs = [] \<and> saved_paths evs = []
           \<and> set (devices evs) \<subseteq> {''cpu''} \<and> a' = a\<lparr>device := ''cpu''\<rparr>"
proof -
  from train_Inr [OF assms] obtain vs evs where
    r: "a' = a\<lparr>device := ''cpu''\<rparr>" "trace w' = trace w @ evs"
       "calls evs = [ModelTrain] @ concat (map (train_ops a' (grad_enabled w)) vs) @ [Print []]"
    by blast
  have "sched_metrics (calls evs) = []" "saved_paths (calls evs) = []"
       "set (devices (calls evs)) \<subseteq> {''cpu''}"
    using train_ops_quiet [of a' "grad_enabled w" vs] by (simp_all add: r(3) r(1))
  with r(1,2) show ?thesis
    by (intro exI [of _ evs]) (simp add: sched_metrics_calls saved_paths_calls devices_calls)
qed

lemma val_quiet:
  assumes "val T dl e a w = Inr (v, a', w')"
  shows "\<exists>evs. trace w' = trace w @ evs \<and> sched_metrics evs = [] \<and> saved_paths evs = []
           \<and> devices evs = [] \<and> a' = a\<lparr>device := ''cpu''\<rparr> \<and> params w' = params w
           \<and> opt_lr w' = opt_lr w"
proof -
  from val_Inr [OF assms] obtain evs m1 m2 m3 where
    r: "a' = a\<lparr>device := ''cpu''\<rparr>"
       "w' = emit (evs @ [LogInfo m1, LogInfo m2, LogInfo m3]) (w\<lparr>training := False\<rparr>)"
       "calls evs =
          [ModelEval, NoGradEnter] @
          concat (map (\<lambda>b. val_ops a False False (val_loss T a (params w) False b)
                             (val_org_mse T a b)) (batches T dl e)) @
          [NoGradExit]"
    by blast
  have "sched_metrics (calls evs) = []" "saved_paths (calls evs) = []"
       "devices (calls evs) = []"
    by (simp_all add: r(3) val_ops_quiet)
  with r(1,2) show ?thesis
    by (intro exI [of _ "evs @ [LogInfo m1, LogInfo m2, LogInfo m3]"])
       (simp add: sched_metrics_calls saved_paths_calls devices_calls)
qed

lemma path_device [simp]:
  "best_path (a\<lparr>device := d\<rparr>) = best_path a"
  "checkpoint_path (a\<lparr>device := d\<rparr>) e = checkpoint_path a e"
  by (simp_all add: best_path_def checkpoint_path_def)

lemma epoch_step_Inr:
  assumes "epoch_step T trl vll st e = Inr st'"
  shows "\<exists>v evs.
           trace (rs_world st') =
             trace (rs_world st) @ evs @ [SchedStep v] @
             (if flt (Finite v) (best_loss st)
              then [Save (best_path (rs_args st)) (params (rs_world st'))] else []) @
             (if e mod save_interval (rs_args st) = 0
              then [Save (checkpoint_path (rs_args st) e) (params (rs_world st'))] else [])
           \<and> sched_metrics evs = [] \<and> saved_paths evs = [] \<and> set (devices evs) \<subseteq> {''cpu''}
           \<and> best_loss st' = (if flt (Finite v) (best_loss st) then Finite v else best_loss st)
           \<and> rs_args st' = (rs_args st)\<lparr>device := ''cpu''\<rparr>
           \<and> save_interval (rs_args st) \<noteq> 0"
proof -
  define w0 where "w0 = emit [LogInfo (EpochLog e (num_epochs (rs_args st)))] (rs_world st)"
  from assms obtain t_loss a1 w1 where
    tr: "train T trl e (rs_args st) w0 = Inr (t_loss, a1, w1)"
    by (auto simp: epoch_step_def Let_def w0_def split: sum.splits)
  from assms tr obtain v a2 w2 where
    va: "val T vll e a1 w1 = Inr (v, a2, w2)"
    by (auto simp: epoch_step_def Let_def w0_def split: sum.splits)
  from train_quiet [OF tr] obtain evs1 where
    t: "trace w1 = trace w0 @ evs1" "sched_metrics evs1 = []" "saved_paths evs1 = []"
       "set (devices evs1) \<subseteq> {''cpu''}" "a1 = (rs_args st)\<lparr>device := ''cpu''\<rparr>"
    by blast
  from val_quiet [OF va] obtain evs2 where
    u: "trace w2 = trace w1 @ evs2" "sched_metrics evs2 = []" "saved_paths evs2 = []"
       "devices evs2 = []" "a2 = a1\<lparr>device := ''cpu''\<rparr>"
    by blast
  have a2: "a2 = (rs_args st)\<lparr>device := ''cpu''\<rparr>"
    by (simp add: t(5) u(5))
  from assms tr va have nz: "save_interval (rs_args st) \<noteq> 0"
    by (auto simp: epoch_step_def Let_def w0_def a2 split: if_splits)
  from assms tr va nz have st':
    "trace (rs_world st') =
       trace w2 @ [SchedStep v] @
       (if flt (Finite v) (best_loss st)
        then [Save (best_path (rs_args st)) (params (rs_world st'))] else []) @
       (if e mod save_interval (rs_args st) = 0
        then [Save (checkpoint_path (rs_args st) e) (params (rs_world st'))] else [])"
    "best_loss st' = (if flt (Finite v) (best_loss st) then Finite v else best_loss st)"
    "rs_args st' = (rs_args st)\<lparr>device := ''cpu''\<rparr>"
    by (auto simp: epoch_step_def Let_def w0_def [symmetric] a2)
  show ?thesis
  proof (intro exI [of _ v]
      exI [of _ "[LogInfo (EpochLog e (num_epochs (rs_args st)))] @ evs1 @ evs2"] conjI)
    show "trace (rs_world st') =
       trace (rs_world st) @ ([LogInfo (EpochLog e (num_epochs (rs_args st)))] @ evs1 @ evs2) @
       [SchedStep v] @
       (if flt (Finite v) (best_loss st)
        then [Save (best_path (rs_args st)) (params (rs_world st'))] else []) @
       (if e mod save_interval (rs_args st) = 0
        then [Save (checkpoint_path (rs_args st) e) (params (rs_world st'))] else [])"
      unfolding st'(1) u(1) t(1) by (simp add: w0_def)
  qed (use t u st' nz in simp_all)
qed

lemma run_epochs_append:
  "run_epochs T trl vll st (xs @ ys) =
     (case run_epochs T trl vll st xs of
        Inl x \<Rightarrow> Inl x
      | Inr st' \<Rightarrow> run_epochs T trl vll st' ys)"
  by (induction xs arbitrary: st) (simp_all split: sum.splits)

lemma run_epochs_args:
  assumes "run_epochs T trl vll st es = Inr st'"
  shows "rs_args st' = (if es = [] then rs_args st else (rs_args st)\<lparr>device := ''cpu''\<rparr>)"
  using assms
proof (induction es arbitrary: st)
  case Nil
  then show ?case by simp
next
  case (Cons e es)
  from Cons.prems obtain st1 where
    step: "epoch_step T trl vll st e = Inr st1" and
    rest: "run_epochs T trl vll st1 es = Inr st'"
    by (auto split: sum.splits)
  from epoch_step_Inr [OF step] have "rs_args st1 = (rs_args st)\<lparr>device := ''cpu''\<rparr>"
    by blast
  with Cons.IH [OF rest] show ?case by simp
qed


lemma flt_Finite_cases:
  "b \<noteq> NaN \<Longrightarrow> flt (Finite v) b = (case b of Finite x \<Rightarrow> v < x | PosInf \<Rightarrow> True | NaN \<Rightarrow> False)"
  by (cases b) simp_all



lemma init_state_facts:
  "rs_args (init_state T a) = a"
  "best_loss (init_state T a) = PosInf"
  "sched_metrics (trace (rs_world (init_state T a))) = []"
  "saved_paths (trace (rs_world (init_state T a))) = []"
  "devices (trace (rs_world (init_state T a))) = [''cpu'']"
  by (simp_all add: init_state_def Let_def)




lemma epoch_step_total:
  assumes "batches T trl e \<noteq> []" and "batches T vll e \<noteq> []"
    and "print_iters (rs_args st) \<noteq> 0" and "save_interval (rs_args st) \<noteq> 0"
  shows "\<exists>st'. epoch_step T trl vll st e = Inr st'"
proof -
  define w0 where "w0 = emit [LogInfo (EpochLog e (num_epochs (rs_args st)))] (rs_world st)"
  from train_total [OF assms(1) assms(3)] obtain t_loss a1 w1 where
    tr: "train T trl e (rs_args st) w0 = Inr (t_loss, a1, w1)" by (metis prod_cases3)
  from train_quiet [OF tr] have a1: "a1 = (rs_args st)\<lparr>device := ''cpu''\<rparr>" by blast
  then have "print_iters a1 \<noteq> 0" using assms(3) by simp
  from val_total [OF assms(2) this] obtain v a2 w2 where
    va: "val T vll e a1 w1 = Inr (v, a2, w2)" by (metis prod_cases3)
  from val_quiet [OF va] a1 have a2: "a2 = (rs_args st)\<lparr>device := ''cpu''\<rparr>" by auto
  from tr va a2 assms(4) show ?thesis
    by (simp add: epoch_step_def Let_def w0_def [symmetric])
qed

lemma run_epochs_total:
  assumes "\<forall>e \<in> set es. batches T trl e \<noteq> [] \<and> batches T vll e \<noteq> []"
    and "print_iters (rs_args st) \<noteq> 0" and "save_interval (rs_args st) \<noteq> 0"
  shows "\<exists>st'. run_epochs T trl vll st es = Inr st'"
  using assms
proof (induction es arbitrary: st)
  case Nil
  then show ?case by simp
next
  case (Cons e es)
  from Cons.prems have "batches T trl e \<noteq> []" "batches T vll e \<noteq> []" by simp_all
  from epoch_step_total [OF this Cons.prems(2,3)] obtain st1 where
    step: "epoch_step T trl vll st e = Inr st1" by blast
  from epoch_step_Inr [OF step] have "rs_args st1 = (rs_args st)\<lparr>device := ''cpu''\<rparr>"
    by blast
  with Cons.prems have "print_iters (rs_args st1) \<noteq> 0" "save_interval (rs_args st1) \<noteq> 0"
    by simp_all
  from Cons.IH [OF _ this] Cons.prems(1) obtain st' where
    "run_epochs T trl vll st1 es = Inr st'" by auto
  with step show ?case by simp
qed


lemma run_epochs_fields:
  assumes "run_epochs T trl vll st es = Inr st'"
  shows "save_dir (rs_args st') = save_dir (rs_args st)"
    and "save_interval (rs_args st') = save_interval (rs_args st)"
    and "best_path (rs_args st') = best_path (rs_args st)"
    and "checkpoint_path (rs_args st') e = checkpoint_path (rs_args st) e"
  using run_epochs_args [OF assms] by (simp_all split: if_splits)


subsection \<open>The command line and the devices\<close>





subsection \<open>The concrete framework, evaluated\<close>

lemma toy_fields [simp]:
  "batches toy dl e = dl_dataset dl"
  "view toy t shape = t"
  "to toy t d = t"
  "forward toy p tr x = p * x"
  "loss_func toy x y = (x - y) ^ 2"
  "backward toy g p tr x y = 2 * (p * x - y) * x"
  "opt_step toy os r p g = (os, case g of None \<Rightarrow> p | Some d \<Rightarrow> p - r * d)"
  "sched_step toy ss v r = (ss, r)"
  by (simp_all add: toy_def)

lemma toy_batches [simp]:
  "dl_dataset toy_loader = [(1, 2, ''a''), (2, 2, ''b'')]" "dl_dataset empty_loader = []"
  by (simp_all add: toy_loader_def empty_loader_def)

lemma toy_train:
  "train toy toy_loader 1 toy_args toy_world =
     Inr (1 / 2, toy_args\<lparr>device := ''cpu''\<rparr>,
          toy_world\<lparr>grad := Some 0, trace :=
            [ModelTrain,
             View [- 1, 1, 50, 50], View [- 1, 1, 50, 50], To ''cpu'', To ''cpu'',
             Forward True True, LossFunc 1, ZeroGrad, Backward, OptStep,
             LogInfo (TrainLog 1 1 2 1 1 0),
             View [- 1, 1, 50, 50], View [- 1, 1, 50, 50], To ''cpu'', To ''cpu'',
             Forward True True, LossFunc 0, ZeroGrad, Backward, OptStep,
             Print []]\<rparr>)"
  by (simp add: train_def train_batch_def Let_def toy_args_def toy_world_def
        emit_def patch_shape_def)

lemma toy_train_no_reshape:
  "train toy toy_loader 1 (toy_args\<lparr>patch_size := 0\<rparr>) toy_world =
     Inr (1 / 2, toy_args\<lparr>patch_size := 0, device := ''cpu''\<rparr>,
          toy_world\<lparr>grad := Some 0, trace :=
            [ModelTrain,
             To ''cpu'', To ''cpu'',
             Forward True True, LossFunc 1, ZeroGrad, Backward, OptStep,
             LogInfo (TrainLog 1 1 2 1 1 0),
             To ''cpu'', To ''cpu'',
             Forward True True, LossFunc 0, ZeroGrad, Backward, OptStep,
             Print []]\<rparr>)"
  by (simp add: train_def train_batch_def Let_def toy_args_def toy_world_def
        emit_def patch_shape_def)

lemma toy_val:
  "val toy toy_loader 1 toy_args toy_world =
     Inr (1 / 2, toy_args\<lparr>device := ''cpu''\<rparr>,
          toy_world\<lparr>training := False, trace :=
            [ModelEval, NoGradEnter,
             View [- 1, 1, 50, 50], View [- 1, 1, 50, 50], Forward False False,
             LossFunc 1, LossFunc 1,
             LogInfo (ValLog 1 1 2 1 1 (Finite 0) (Finite 0) (Finite 0) (Finite 0)),
             View [- 1, 1, 50, 50], View [- 1, 1, 50, 50], Forward False False,
             LossFunc 0, LossFunc 0,
             NoGradExit,
             LogInfo (MeanPsnr PosInf), LogInfo (MeanOrgPsnr PosInf),
             LogInfo (MeanLoss (1 / 2))]\<rparr>)"
  by (simp add: val_def val_batch_def Let_def toy_args_def toy_world_def
        emit_def patch_shape_def psnr_of_def)

lemma toy_pos [simp]:
  "dl_dataset pos_loader = [(1, 2, ''a''), (3, 2, ''b'')]"
  by (simp add: pos_loader_def)

lemma toy_loaders [simp]:
  "dl_dataset (train_loader_of toy toy_args) = [(1, 2, ''a''), (2, 2, ''b'')]"
  "dl_dataset (val_loader_of toy toy_args) = [(1, 2, ''a''), (2, 2, ''b'')]"
  by (simp_all add: train_loader_of_def val_loader_of_def toy_def toy_args_def)

lemma toy_init_args [simp]:
  "print_iters (rs_args (init_state toy toy_args)) = 20"
  "save_interval (rs_args (init_state toy toy_args)) = 1"
  by (simp_all add: init_state_facts toy_args_def)



section \<open>The claims\<close>



text \<open>
  Claim C8. When the epochs \<open>1\<close> to \<open>e\<close> have run and \<open>e\<close> is a multiple of
  \<open>save_interval\<close>, the last thing epoch \<open>e\<close> did was to save the model's parameters to
  \<open>model_checkpoint_<e>.pth\<close> under the save directory, whatever the validation loss was.
\<close>

theorem periodic_checkpoint_written:
  assumes "run_epochs T trl vll (init_state T a) [1..e] = Inr st"
    and "1 \<le> e" and "e mod save_interval a = 0"
  shows "last (trace (rs_world st)) =
           Save (save_dir a @ ''/model_checkpoint_'' @ str_int e @ ''.pth'')
             (params (rs_world st))"
proof -
  from assms(2) have "[1..e] = [1..e - 1] @ [e]"
    by (rule upto_rec2)
  with assms(1) obtain st0 where
    before: "run_epochs T trl vll (init_state T a) [1..e - 1] = Inr st0" and
    step: "epoch_step T trl vll st0 e = Inr st"
    by (auto simp: run_epochs_append split: sum.splits)
  have f: "save_interval (rs_args st0) = save_interval a"
          "checkpoint_path (rs_args st0) e = checkpoint_path a e"
          "save_dir (rs_args st0) = save_dir a"
    using run_epochs_fields(2,4,1) [OF before] by (simp_all add: init_state_facts)
  from epoch_step_Inr [OF step] obtain v evs where
    r: "trace (rs_world st) =
             trace (rs_world st0) @ evs @ [SchedStep v] @
             (if flt (Finite v) (best_loss st0)
              then [Save (best_path (rs_args st0)) (params (rs_world st))] else []) @
             (if e mod save_interval (rs_args st0) = 0
              then [Save (checkpoint_path (rs_args st0) e) (params (rs_world st))] else [])"
    by blast
  show ?thesis
    unfolding r using assms(3) by (simp add: f checkpoint_path_def)
qed

theorem periodic_checkpoint_written_witness:
  "\<exists>st. run_epochs toy (train_loader_of toy toy_args) (val_loader_of toy toy_args)
          (init_state toy toy_args) [1..2] = Inr st \<and>
        (1::int) \<le> 2 \<and> 2 mod save_interval toy_args = 0 \<and>
        last (trace (rs_world st)) = Save ''ckpt/model_checkpoint_2.pth'' (params (rs_world st))"
proof -
  obtain st where h1: "run_epochs toy (train_loader_of toy toy_args)
      (val_loader_of toy toy_args) (init_state toy toy_args) [1..2] = Inr st"
    using run_epochs_total [of "[1..2]" toy "train_loader_of toy toy_args"
        "val_loader_of toy toy_args" "init_state toy toy_args"]
    by auto
  have h2: "(1::int) \<le> 2" by simp
  have h3: "2 mod save_interval toy_args = 0" by (simp add: toy_args_def)
  have sd: "save_dir toy_args = ''ckpt''" by (simp add: toy_args_def)
  have s2: "str_int 2 = ''2''" by (simp add: str_int_def str_nat.simps)
  from periodic_checkpoint_written [OF h1 h2 h3] h1 h2 h3 show ?thesis
    by (auto simp: sd s2)
qed

text \<open>
  Claim C2, as amended. \<open>train\<close> and \<open>val\<close> change one field of the configuration:
  both set \<open>device\<close> to \<open>'cpu'\<close>; every other field is as it was. So are the fields
  after any number of epochs of the loop of \<open>main\<close>, which itself assigns to none.
\<close>

theorem config_changes_only_device:
  "(train T dl e a w = Inr (l, a', w') \<longrightarrow> a' = a\<lparr>device := ''cpu''\<rparr>) \<and>
   (val T dl e a w = Inr (v, a'', w'') \<longrightarrow> a'' = a\<lparr>device := ''cpu''\<rparr>) \<and>
   (run_epochs T trl vll st es = Inr st' \<longrightarrow>
      rs_args st' = (if es = [] then rs_args st else (rs_args st)\<lparr>device := ''cpu''\<rparr>))"
proof (intro conjI impI)
  assume "train T dl e a w = Inr (l, a', w')"
  from train_quiet [OF this] show "a' = a\<lparr>device := ''cpu''\<rparr>" by blast
next
  assume "val T dl e a w = Inr (v, a'', w'')"
  from val_quiet [OF this] show "a'' = a\<lparr>device := ''cpu''\<rparr>" by blast
next
  assume "run_epochs T trl vll st es = Inr st'"
  from run_epochs_args [OF this]
  show "rs_args st' = (if es = [] then rs_args st else (rs_args st)\<lparr>device := ''cpu''\<rparr>)" .
qed

theorem config_changes_only_device_witness:
  "\<exists>l w' v w'' st'.
     train toy toy_loader 1 toy_args toy_world = Inr (l, toy_args\<lparr>device := ''cpu''\<rparr>, w') \<and>
     val toy toy_loader 1 toy_args toy_world = Inr (v, toy_args\<lparr>device := ''cpu''\<rparr>, w'') \<and>
     run_epochs toy (train_loader_of toy toy_args) (val_loader_of toy toy_args)
       (init_state toy toy_args) [1] = Inr st' \<and>
     rs_args st' = toy_args\<lparr>device := ''cpu''\<rparr>"
proof -
  obtain st' where h: "run_epochs toy (train_loader_of toy toy_args)
      (val_loader_of toy toy_args) (init_state toy toy_args) [1] = Inr st'"
    using run_epochs_total [of "[1]" toy "train_loader_of toy toy_args"
        "val_loader_of toy toy_args" "init_state toy toy_args"]
    by auto
  from config_changes_only_device [of toy toy_loader 1 toy_args toy_world _ _ _ _ _ _
      "train_loader_of toy toy_args" "val_loader_of toy toy_args" "init_state toy toy_args"
      "[1]" st'] h
  have "rs_args st' = toy_args\<lparr>device := ''cpu''\<rparr>"
    by (simp add: init_state_facts)
  with h toy_train toy_val show ?thesis by blast
qed

text \<open>
  Claim C2 as stated fails: with \<open>--device cuda\<close> the configuration that \<open>train\<close> (and
  \<open>val\<close>) leaves behind has the device \<open>'cpu'\<close> (lines 47 and 78).
\<close>

theorem config_device_overwritten_counterexample:
  "device toy_args = ''cuda'' \<and>
   device (fst (snd (projr (train toy toy_loader 1 toy_args toy_world)))) = ''cpu'' \<and>
   device (fst (snd (projr (val toy toy_loader 1 toy_args toy_world)))) = ''cpu''"
  by (simp add: toy_train toy_val) (simp add: toy_args_def)






text \<open>
  Claim C4, as amended. For every dataloader that yields at least one batch, and a
  non-zero \<open>print_iters\<close>, \<open>train\<close> returns, and what it returns is the sum of the loss
  values the loss function gave during the call, one for each batch, divided by the
  number of batches.
\<close>

theorem train_returns_mean_loss:
  assumes "batches T dl e \<noteq> []" and "print_iters a \<noteq> 0"
  shows "\<exists>l a' w'. train T dl e a w = Inr (l, a', w') \<and>
           length (loss_values (drop (length (trace w)) (trace w'))) = length (batches T dl e) \<and>
           l = sum_list (loss_values (drop (length (trace w)) (trace w'))) /
               real (length (batches T dl e))"
proof -
  from train_total [OF assms] obtain l a' w' where
    ret: "train T dl e a w = Inr (l, a', w')" by (metis prod_cases3)
  from train_Inr [OF ret] obtain vs evs where
    r: "length vs = length (batches T dl e)" "l = sum_list vs / real (length vs)"
       "trace w' = trace w @ evs"
       "calls evs = [ModelTrain] @ concat (map (train_ops a' (grad_enabled w)) vs) @ [Print []]"
    by blast
  have "loss_values evs = loss_values (calls evs)"
    by (simp add: loss_values_calls)
  also have "\<dots> = vs"
    by (simp add: r(4) loss_values_train_ops)
  finally have "loss_values (drop (length (trace w)) (trace w')) = vs"
    by (simp add: r(3))
  with ret r(1,2) show ?thesis by simp
qed

theorem train_returns_mean_loss_witness:
  "batches toy toy_loader 1 \<noteq> [] \<and> print_iters toy_args \<noteq> 0 \<and>
   (\<exists>l a' w'. train toy toy_loader 1 toy_args toy_world = Inr (l, a', w') \<and>
      l = 1 / 2 \<and>
      length (loss_values (drop (length (trace toy_world)) (trace w'))) =
        length (batches toy toy_loader 1) \<and>
      l = sum_list (loss_values (drop (length (trace toy_world)) (trace w'))) /
          real (length (batches toy toy_loader 1)))"
proof -
  have h1: "batches toy toy_loader 1 \<noteq> []" by simp
  have h2: "print_iters toy_args \<noteq> 0" by (simp add: toy_args_def)
  from train_returns_mean_loss [OF h1 h2, of toy_world] h1 h2 show ?thesis
    by (auto simp: toy_train)
qed

text \<open>
  Claim C4 as stated fails where \<open>print_iters\<close> is zero: the first pass of the loop
  raises at \<open>batch_i % args.print_iters\<close> (line 63), and \<open>train\<close> returns nothing.
\<close>

theorem train_zero_print_iters_counterexample:
  "batches toy toy_loader 1 \<noteq> [] \<and>
   train toy toy_loader 1 (toy_args\<lparr>print_iters := 0\<rparr>) toy_world = Inl ZeroDivisionError"
  by (simp add: train_zero_print_iters)

text \<open>
  Claim C7, as amended. In a training epoch every batch gets, in this order: the reshape
  of the input and of the ground truth to patch tensors when \<open>patch_size\<close> is not zero
  (and no reshape when it is zero), the move of both to the cpu, the forward pass in
  training mode, the loss, the clearing of the gradients, the backward pass and one step
  of the optimizer. The calls of the whole epoch are \<open>model.train()\<close>, these calls for
  each batch, and the final \<open>print\<close>.
\<close>

theorem train_batch_order:
  assumes "batches T dl e \<noteq> []" and "print_iters a \<noteq> 0"
  shows "\<exists>l a' w' vs. train T dl e a w = Inr (l, a', w') \<and>
           length vs = length (batches T dl e) \<and>
           calls (drop (length (trace w)) (trace w')) =
             [ModelTrain] @
             concat (map (\<lambda>v.
                (if patch_size a \<noteq> 0
                 then [View [- 1, 1, patch_size a, patch_size a],
                       View [- 1, 1, patch_size a, patch_size a]]
                 else []) @
                [To ''cpu'', To ''cpu'', Forward True (grad_enabled w), LossFunc v,
                 ZeroGrad, Backward, OptStep]) vs) @
             [Print []]"
proof -
  from train_total [OF assms] obtain l a' w' where
    ret: "train T dl e a w = Inr (l, a', w')" by (metis prod_cases3)
  from train_Inr [OF ret] obtain vs evs where
    r: "length vs = length (batches T dl e)" "a' = a\<lparr>device := ''cpu''\<rparr>"
       "trace w' = trace w @ evs"
       "calls evs = [ModelTrain] @ concat (map (train_ops a' (grad_enabled w)) vs) @ [Print []]"
    by blast
  have ops: "train_ops a' (grad_enabled w) =
      (\<lambda>v. (if patch_size a \<noteq> 0
            then [View [- 1, 1, patch_size a, patch_size a],
                  View [- 1, 1, patch_size a, patch_size a]]
            else []) @
           [To ''cpu'', To ''cpu'', Forward True (grad_enabled w), LossFunc v,
            ZeroGrad, Backward, OptStep])"
    by (intro ext) (simp add: train_ops_def r(2) patch_shape_def)
  from ret r(1) r(3) r(4) show ?thesis
    unfolding ops by (intro exI [of _ l] exI [of _ a'] exI [of _ w'] exI [of _ vs]) simp
qed

theorem train_batch_order_witness:
  "batches toy toy_loader 1 \<noteq> [] \<and> print_iters toy_args \<noteq> 0 \<and>
   (\<exists>l a' w' vs. train toy toy_loader 1 toy_args toy_world = Inr (l, a', w') \<and>
      length vs = length (batches toy toy_loader 1) \<and>
      calls (drop (length (trace toy_world)) (trace w')) =
        [ModelTrain] @
        concat (map (\<lambda>v.
           [View [- 1, 1, 50, 50], View [- 1, 1, 50, 50],
            To ''cpu'', To ''cpu'', Forward True True, LossFunc v,
            ZeroGrad, Backward, OptStep]) vs) @
        [Print []])"
proof -
  have h1: "batches toy toy_loader 1 \<noteq> []" by simp
  have h2: "print_iters toy_args \<noteq> 0" by (simp add: toy_args_def)
  have ps: "patch_size toy_args = 50" "grad_enabled toy_world = True"
    by (simp_all add: toy_args_def toy_world_def)
  from train_batch_order [OF h1 h2, of toy_world] h1 h2 show ?thesis
    unfolding ps by simp
qed

text \<open>
  Claim C7 as stated fails where \<open>patch_size\<close> is zero: the guard \<open>if args.patch_size\<close>
  (line 51) skips both reshapes, and the calls of the epoch hold no \<open>view\<close>.
\<close>

theorem train_no_reshape_counterexample:
  "calls (trace (snd (snd (projr
      (train toy toy_loader 1 (toy_args\<lparr>patch_size := 0\<rparr>) toy_world))))) =
     [ModelTrain,
      To ''cpu'', To ''cpu'', Forward True True, LossFunc 1, ZeroGrad, Backward, OptStep,
      To ''cpu'', To ''cpu'', Forward True True, LossFunc 0, ZeroGrad, Backward, OptStep,
      Print []]"
  by (simp add: toy_train_no_reshape calls_def)





text \<open>
  Claim C9. A call of \<open>val\<close> that returns leaves the learnable parameters as they
  were (and the stored gradients and the optimizer). It puts the model in evaluation
  mode, and every forward pass is made in that mode with gradient tracking switched
  off, between entering and leaving \<open>torch.no_grad()\<close>; the calls are those listed, with
  no backward pass and no step of the optimizer. The loader \<open>main\<close> builds for validation
  has batch size 1.
\<close>

theorem val_keeps_parameters:
  assumes "val T dl e a w = Inr (v, a', w')"
  shows "params w' = params w \<and> grad w' = grad w \<and> opt_state w' = opt_state w \<and>
         opt_lr w' = opt_lr w \<and> training w' = False \<and>
         calls (drop (length (trace w)) (trace w')) =
           [ModelEval, NoGradEnter] @
           concat (map (\<lambda>b.
              [View [- 1, 1, patch_size a, patch_size a],
               View [- 1, 1, patch_size a, patch_size a],
               Forward False False,
               LossFunc (val_loss T a (params w) False b),
               LossFunc (val_org_mse T a b)]) (batches T dl e)) @
           [NoGradExit] \<and>
         dl_batch_size (val_loader_of T a) = 1"
proof -
  from val_Inr [OF assms] obtain evs m1 m2 m3 where
    w': "w' = emit (evs @ [LogInfo m1, LogInfo m2, LogInfo m3]) (w\<lparr>training := False\<rparr>)" and
    c: "calls evs =
          [ModelEval, NoGradEnter] @
          concat (map (\<lambda>b. val_ops a False False (val_loss T a (params w) False b)
                             (val_org_mse T a b)) (batches T dl e)) @
          [NoGradExit]"
    by blast
  have "calls (drop (length (trace w)) (trace w')) = calls evs"
    by (simp add: w' calls_def)
  with c w' show ?thesis
    by (simp add: val_ops_def patch_shape_def val_loader_of_def)
qed

theorem val_keeps_parameters_witness:
  "val toy toy_loader 1 toy_args toy_world =
     Inr (1 / 2, toy_args\<lparr>device := ''cpu''\<rparr>,
          toy_world\<lparr>training := False, trace :=
            [ModelEval, NoGradEnter,
             View [- 1, 1, 50, 50], View [- 1, 1, 50, 50], Forward False False,
             LossFunc 1, LossFunc 1,
             LogInfo (ValLog 1 1 2 1 1 (Finite 0) (Finite 0) (Finite 0) (Finite 0)),
             View [- 1, 1, 50, 50], View [- 1, 1, 50, 50], Forward False False,
             LossFunc 0, LossFunc 0,
             NoGradExit,
             LogInfo (MeanPsnr PosInf), LogInfo (MeanOrgPsnr PosInf),
             LogInfo (MeanLoss (1 / 2))]\<rparr>) \<and>
   params (toy_world\<lparr>training := False, trace := []\<rparr>) = params toy_world \<and>
   dl_batch_size (val_loader_of toy toy_args) = 1"
  using val_keeps_parameters [OF toy_val] toy_val by simp

text \<open>
  Claim C10. For a dataloader that yields no batch, both \<open>train\<close> and \<open>val\<close> raise
  instead of returning: \<open>train\<close> reads \<open>batch_i\<close>, which no pass of the loop has bound
  (UnboundLocalError), and \<open>val\<close> divides by the length of the dataloader, which is
  zero (ZeroDivisionError).
\<close>

theorem empty_dataloader_raises:
  assumes "batches T dl e = []"
  shows "train T dl e a w = Inl UnboundLocalError \<and> val T dl e a w = Inl ZeroDivisionError"
  using assms by (simp add: train_empty val_empty)

theorem empty_dataloader_raises_witness:
  "batches toy empty_loader 1 = [] \<and>
   train toy empty_loader 1 toy_args toy_world = Inl UnboundLocalError \<and>
   val toy empty_loader 1 toy_args toy_world = Inl ZeroDivisionError"
proof -
  have h: "batches toy empty_loader 1 = []"
    by (simp add: toy_def empty_loader_def)
  from empty_dataloader_raises [OF h, of toy_args toy_world] h show ?thesis
    by simp
qed

end
